theory Spec2Isabelle
  imports Main
begin

section \<open>The validator: a regular expression over bytes\<close>

text \<open>
  The server keeps one compiled pattern, \<^verbatim>\<open>^[a-zA-Z0-9]+$\<close>, and
  \<^verbatim>\<open>validateAlphanumeric\<close> asks the standard regular-expression library whether the
  input contains a match of it. The library is not part of the repository; the fragment of
  its pattern language that the server uses is given here as a datatype with an executable
  matcher. A Go string is a sequence of bytes, which is what \<^typ>\<open>string\<close> is. The library
  decodes UTF-8 before matching, but every byte of a multi-byte or invalid sequence is at
  least 0x80 and decodes to a code point outside the three ASCII ranges, so matching this
  pattern byte by byte accepts the same strings.

  A position in the text is the pair of "nothing has been consumed yet" and the text that
  remains. \<^verbatim>\<open>^\<close> holds at the beginning of the text only and \<^verbatim>\<open>$\<close>
  (without the multi-line flag) at its very end only. The matcher is written with a
  continuation, so that concatenation and repetition backtrack over all ways to match.
  One repetition more than the number of bytes left is enough for \<^verbatim>\<open>+\<close>.
\<close>

datatype regexp =
    BeginText
  | EndText
  | CharClass "(char \<times> char) list"
  | Cat regexp regexp
  | Plus regexp

type_synonym pos = "bool \<times> string"

definition inClass :: "(char \<times> char) list \<Rightarrow> char \<Rightarrow> bool" where
  "inClass rs c =
     list_ex (\<lambda>(lo, hi). (of_char lo :: nat) \<le> of_char c \<and> (of_char c :: nat) \<le> of_char hi) rs"

primrec iterate1 :: "nat \<Rightarrow> (pos \<Rightarrow> (pos \<Rightarrow> bool) \<Rightarrow> bool) \<Rightarrow> pos \<Rightarrow> (pos \<Rightarrow> bool) \<Rightarrow> bool" where
  "iterate1 0 f p k = False"
| "iterate1 (Suc n) f p k = f p (\<lambda>q. k q \<or> iterate1 n f q k)"

primrec matchk :: "regexp \<Rightarrow> pos \<Rightarrow> (pos \<Rightarrow> bool) \<Rightarrow> bool" where
  "matchk BeginText p k = (fst p \<and> k p)"
| "matchk EndText p k = (snd p = [] \<and> k p)"
| "matchk (CharClass rs) p k =
     (case snd p of [] \<Rightarrow> False | c # cs \<Rightarrow> inClass rs c \<and> k (False, cs))"
| "matchk (Cat r1 r2) p k = matchk r1 p (\<lambda>q. matchk r2 q k)"
| "matchk (Plus r) p k = iterate1 (Suc (length (snd p))) (matchk r) p k"

text \<open>
  \<^verbatim>\<open>MatchString\<close> is unanchored: it tries every start position of the text.
\<close>

fun positions :: "bool \<Rightarrow> string \<Rightarrow> pos list" where
  "positions b [] = [(b, [])]"
| "positions b (c # cs) = (b, c # cs) # positions False cs"

definition MatchString :: "regexp \<Rightarrow> string \<Rightarrow> bool" where
  "MatchString re s = list_ex (\<lambda>p. matchk re p (\<lambda>_. True)) (positions True s)"

definition alphanumericRegex :: regexp where
  "alphanumericRegex =
     Cat BeginText
       (Cat (Plus (CharClass [(CHR ''a'', CHR ''z''), (CHR ''A'', CHR ''Z''), (CHR ''0'', CHR ''9'')]))
            EndText)"

definition validateAlphanumeric :: "string \<Rightarrow> bool" where
  "validateAlphanumeric input = MatchString alphanumericRegex input"

text \<open>
  The two character sets in which the specification states the validator's contract,
  written out letter by letter and independent of the ranges of the pattern.
\<close>

definition isAsciiLetter :: "char \<Rightarrow> bool" where
  "isAsciiLetter c \<longleftrightarrow> c \<in> set ''abcdefghijklmnopqrstuvwxyz'' \<or> c \<in> set ''ABCDEFGHIJKLMNOPQRSTUVWXYZ''"

definition isAsciiDigit :: "char \<Rightarrow> bool" where
  "isAsciiDigit c \<longleftrightarrow> c \<in> set ''0123456789''"

section \<open>Decimal rendering of integers\<close>

text \<open>
  \<^verbatim>\<open>strconv.Itoa\<close> and the \<^verbatim>\<open>%d\<close> verb of the formatting library, both
  of the Go standard library: an optional minus sign and the decimal digits, no padding.
\<close>

definition digit_char :: "nat \<Rightarrow> char" where
  "digit_char d = ''0123456789'' ! d"

fun utoa :: "nat \<Rightarrow> string" where
  "utoa n = (if n < 10 then [digit_char n] else utoa (n div 10) @ [digit_char (n mod 10)])"

definition Itoa :: "int \<Rightarrow> string" where
  "Itoa i = (if i < 0 then CHR ''-'' # utoa (nat (- i)) else utoa (nat i))"

section \<open>The echo tool\<close>

text \<open>
  A Go \<^verbatim>\<open>error\<close> value is its message. \<^verbatim>\<open>EchoRequest\<close> and
  \<^verbatim>\<open>EchoResponse\<close> are the server's two structs. The request and result types
  belong to the protocol library; they are records of the fields that matter here. The
  metadata map has string keys and values of any shape (the type parameter); a nil map is
  \<^const>\<open>None\<close>, and so is a nil pointer to a struct. The metadata field of the result
  is called \<^verbatim>\<open>ResultMeta\<close> because a record field name is global.
\<close>

datatype error = Error (message: string)

record EchoRequest =
  Input :: string

record EchoResponse =
  Output :: string

datatype Content = TextContent string

record 'v CallToolParamsRaw =
  Meta :: "(string \<rightharpoonup> 'v) option"

record 'v CallToolRequest =
  Params :: "'v CallToolParamsRaw option"

record 'v CallToolResult =
  ResultMeta :: "(string \<rightharpoonup> 'v) option"
  Content :: "Content list"
  StructuredContent :: "'v option"
  IsError :: bool

text \<open>
  \<^verbatim>\<open>echoHandler\<close> of the server (the three-result handler that takes a
  \<^verbatim>\<open>*mcp.CallToolRequest\<close> and an \<^verbatim>\<open>EchoRequest\<close>). Its context and its
  request are parameters the body never reads (both are named \<^verbatim>\<open>_\<close> in the
  source). It returns the result pointer, the response struct and the Go error.
\<close>

definition echoHandler ::
  "'c \<Rightarrow> 'v CallToolRequest option \<Rightarrow> EchoRequest
     \<Rightarrow> 'v CallToolResult option \<times> EchoResponse \<times> error option" where
  "echoHandler ctx req params =
     (if \<not> validateAlphanumeric (Input params)
      then (Some \<lparr>ResultMeta = None,
                  Content = [TextContent ''input must be alphanumeric only''],
                  StructuredContent = None,
                  IsError = True\<rparr>,
            \<lparr>Output = ''''\<rparr>,
            None)
      else (let response = \<lparr>Output = Input params\<rparr>
            in (None, response, None)))"

text \<open>
  \<^verbatim>\<open>echoHandler\<close> of \<^verbatim>\<open>cmd/yardstick-server/main.go\<close>, written against
  the older interface of the protocol library: it takes the session and the typed
  parameters (which the library never passes as nil) and returns a result pointer and a Go
  error. The prefix \<^verbatim>\<open>ys_\<close> tells its definitions from those of the
  three-result server.
\<close>

record CallToolParamsFor =
  Arguments :: EchoRequest

definition ys_echoHandler ::
  "'c \<Rightarrow> 's \<Rightarrow> CallToolParamsFor \<Rightarrow> 'v CallToolResult option \<times> error option" where
  "ys_echoHandler ctx session params =
     (if \<not> validateAlphanumeric (Input (Arguments params))
      then (None, Some (Error ''input must be alphanumeric only''))
      else (let response = \<lparr>Output = Input (Arguments params)\<rparr>
            in (Some \<lparr>ResultMeta = None,
                       Content = [TextContent (Output response)],
                       StructuredContent = None,
                       IsError = False\<rparr>,
                None)))"

section \<open>Process environment, flags and server configuration\<close>

text \<open>
  The process environment is a map from variable names to values.
  \<^verbatim>\<open>os.LookupEnv\<close> tells an unset variable from an empty one,
  \<^verbatim>\<open>os.Getenv\<close> reads an unset variable as the empty string.
\<close>

type_synonym environ = "string \<rightharpoonup> string"

definition LookupEnv :: "environ \<Rightarrow> string \<Rightarrow> string option" where
  "LookupEnv env key = env key"

definition Getenv :: "environ \<Rightarrow> string \<Rightarrow> string" where
  "Getenv env key = (case env key of None \<Rightarrow> '''' | Some v \<Rightarrow> v)"


text \<open>
  \<^verbatim>\<open>strconv.Atoi\<close> of the Go standard library: an optional sign, then at least one
  decimal digit and nothing else; the value has to fit the 64-bit \<^verbatim>\<open>int\<close>.
  \<^const>\<open>None\<close> is its error result.
\<close>

definition digit_val :: "char \<Rightarrow> nat option" where
  "digit_val c =
     (if (of_char CHR ''0'' :: nat) \<le> of_char c \<and> (of_char c :: nat) \<le> of_char CHR ''9''
      then Some (of_char c - of_char CHR ''0'') else None)"

fun digits_val :: "nat \<Rightarrow> string \<Rightarrow> nat option" where
  "digits_val acc [] = Some acc"
| "digits_val acc (c # cs) =
     (case digit_val c of None \<Rightarrow> None | Some d \<Rightarrow> digits_val (10 * acc + d) cs)"

definition Atoi :: "string \<Rightarrow> int option" where
  "Atoi s =
     (let neg = (s \<noteq> [] \<and> hd s = CHR ''-'');
          ds = (if s \<noteq> [] \<and> (hd s = CHR ''-'' \<or> hd s = CHR ''+'') then tl s else s)
      in if ds = [] then None
         else case digits_val 0 ds of
                None \<Rightarrow> None
              | Some n \<Rightarrow>
                  (let v = (if neg then - int n else int n)
                   in if - (2 ^ 63) \<le> v \<and> v < 2 ^ 63 then Some v else None))"

text \<open>
  The command line after \<^verbatim>\<open>flag.Parse\<close> has accepted it: a flag is the value
  given, or \<^const>\<open>None\<close> when the flag is absent and its default applies. The
  package-level variables of the server form the record \<^verbatim>\<open>Globals\<close>;
  \<^verbatim>\<open>parseConfig\<close> is the only writer and returns them. \<^verbatim>\<open>ys_parseConfig\<close>
  is \<^verbatim>\<open>parseConfig\<close> of \<^verbatim>\<open>cmd/yardstick-server/main.go\<close>, which has
  only the transport and the port and reads \<^verbatim>\<open>TRANSPORT\<close>.
\<close>

record ServerFlags =
  flag_transport :: "string option"
  flag_port :: "int option"

record Globals =
  transport :: string
  port :: int
  authHeader :: string
  authValue :: string

definition flag_value :: "'a option \<Rightarrow> 'a \<Rightarrow> 'a" where
  "flag_value given dflt = (case given of None \<Rightarrow> dflt | Some v \<Rightarrow> v)"

definition parseConfig :: "ServerFlags \<Rightarrow> environ \<Rightarrow> Globals" where
  "parseConfig flags env =
     (let transport0 = flag_value (flag_transport flags) ''stdio'';
          port0 = flag_value (flag_port flags) 8080;
          transport1 = (case LookupEnv env ''MCP_TRANSPORT'' of Some t \<Rightarrow> t | None \<Rightarrow> transport0);
          port1 = (case LookupEnv env ''PORT'' of
                     Some p \<Rightarrow> (case Atoi p of Some intValue \<Rightarrow> intValue | None \<Rightarrow> port0)
                   | None \<Rightarrow> port0)
      in \<lparr>transport = transport1,
          port = port1,
          authHeader = Getenv env ''AUTH_HEADER'',
          authValue = Getenv env ''AUTH_VALUE''\<rparr>)"

definition ys_parseConfig :: "ServerFlags \<Rightarrow> environ \<Rightarrow> string \<times> int" where
  "ys_parseConfig flags env =
     (let transport0 = flag_value (flag_transport flags) ''stdio'';
          port0 = flag_value (flag_port flags) 8080;
          transport1 = (case LookupEnv env ''TRANSPORT'' of Some t \<Rightarrow> t | None \<Rightarrow> transport0);
          port1 = (case LookupEnv env ''PORT'' of
                     Some p \<Rightarrow> (case Atoi p of Some intValue \<Rightarrow> intValue | None \<Rightarrow> port0)
                   | None \<Rightarrow> port0)
      in (transport1, port1))"

section \<open>The authentication check\<close>

text \<open>
  A request is its header map: canonical header names to the list of their values.
  \<^verbatim>\<open>Header.Get\<close> of the standard library canonicalises the name it is asked for
  and returns the first value, or the empty string when there is none. The
  canonicalisation is the library's and is a parameter of the model. A response writer is
  the status written so far and the body; the first status written stays.
  \<^verbatim>\<open>http.Error\<close> writes the status and the message followed by a newline.
\<close>

record Request =
  Header :: "string \<rightharpoonup> string list"

definition Header_Get :: "(string \<Rightarrow> string) \<Rightarrow> (string \<rightharpoonup> string list) \<Rightarrow> string \<Rightarrow> string" where
  "Header_Get canon h key =
     (case h (canon key) of None \<Rightarrow> '''' | Some [] \<Rightarrow> '''' | Some (v # _) \<Rightarrow> v)"

definition checkAuth :: "(string \<Rightarrow> string) \<Rightarrow> Globals \<Rightarrow> Request \<Rightarrow> error option" where
  "checkAuth canon g r =
     (if authHeader g = '''' then None
      else if Header_Get canon (Header r) (authHeader g) \<noteq> authValue g
           then Some (Error ''unauthorized'')
           else None)"

record ResponseWriter =
  status :: "nat option"
  body :: string

definition StatusUnauthorized :: nat where
  "StatusUnauthorized = 401"

definition http_Error :: "ResponseWriter \<Rightarrow> string \<Rightarrow> nat \<Rightarrow> ResponseWriter" where
  "http_Error w err code =
     w\<lparr>status := (case status w of None \<Rightarrow> Some code | Some c \<Rightarrow> Some c),
       body := body w @ err @ ''\<newline>''\<rparr>"

type_synonym Handler = "ResponseWriter \<Rightarrow> Request \<Rightarrow> ResponseWriter"

definition authWrapper :: "(string \<Rightarrow> string) \<Rightarrow> Globals \<Rightarrow> Handler \<Rightarrow> Handler" where
  "authWrapper canon g next w r =
     (case checkAuth canon g r of
        Some err \<Rightarrow> http_Error w (message err) StatusUnauthorized
      | None \<Rightarrow> next w r)"

section \<open>Server start-up\<close>

text \<open>
  \<^verbatim>\<open>main\<close> of the server as the list of what the process does, in order: it
  creates the server and registers the tool, then serves the configured transport.
  \<^verbatim>\<open>Log\<close> is a line of the logger, \<^verbatim>\<open>Stderr\<close> a direct write to the
  standard error stream, \<^verbatim>\<open>Exit\<close> the end of the process with its status. What
  the blocking calls return when they end is not the program's to decide and comes from
  \<^verbatim>\<open>ServerWorld\<close>; \<^verbatim>\<open>ListenAndServe\<close> always returns an error.
  Timeouts are in seconds.
\<close>

record HttpServer =
  Addr :: string
  ReadTimeout :: nat
  WriteTimeout :: nat
  IdleTimeout :: nat

datatype event =
    NewServer string string
  | AddTool string
  | Log string
  | Stderr string
  | ServerRun
  | HttpHandle string
  | ListenAndServe HttpServer
  | Exit nat

record ServerWorld =
  server_Run :: "error option"
  srv_ListenAndServe :: error

fun is_listener :: "event \<Rightarrow> bool" where
  "is_listener ServerRun = True"
| "is_listener (HttpHandle _) = True"
| "is_listener (ListenAndServe _) = True"
| "is_listener _ = False"

definition main :: "ServerFlags \<Rightarrow> environ \<Rightarrow> ServerWorld \<Rightarrow> event list" where
  "main flags env world =
     (let g = parseConfig flags env
      in [NewServer ''echo-server'' ''1.0.0'', AddTool ''echo''] @
         (if transport g = ''stdio'' then
            [Log ''Starting MCP server with stdio transport'', ServerRun] @
            (case server_Run world of
               Some err \<Rightarrow> [Log (''Failed to run server:'' @ message err), Exit 1]
             | None \<Rightarrow> [Exit 0])
          else if transport g = ''sse'' then
            [Log (''Starting MCP server with SSE transport on port '' @ Itoa (port g)),
             Log (''SSE endpoint: http://localhost:'' @ Itoa (port g) @ ''/sse''),
             Log ''Messages will be handled automatically by the SSE handler'',
             HttpHandle ''/sse'',
             ListenAndServe \<lparr>Addr = '':'' @ Itoa (port g),
                             ReadTimeout = 30, WriteTimeout = 30, IdleTimeout = 60\<rparr>,
             Log (message (srv_ListenAndServe world)),
             Exit 1]
          else if transport g = ''streamable-http'' then
            [Log (''Starting MCP server with streamable HTTP transport on port '' @ Itoa (port g)),
             HttpHandle ''/mcp'',
             ListenAndServe \<lparr>Addr = '':'' @ Itoa (port g),
                             ReadTimeout = 30, WriteTimeout = 30, IdleTimeout = 60\<rparr>,
             Log (message (srv_ListenAndServe world)),
             Exit 1]
          else
            [Stderr (''Unknown transport type: '' @ transport g @ ''\<newline>''),
             Stderr ''Supported transports: stdio, sse, streamable-http\<newline>'',
             Exit 1]))"

section \<open>Concurrent invocations of the echo handler\<close>

text \<open>
  Under the two HTTP transports the library runs one invocation of the handler per tool
  call, concurrently, and the concurrency test of the repository starts a hundred of them
  as goroutines. What the invocations share are the package-level variables: the compiled
  pattern and the configuration. An invocation is modelled by its atomic steps, each of
  which receives the shared variables and returns them: the call of
  \<^verbatim>\<open>validateAlphanumeric\<close>, which reads the shared pattern, and then the branch
  with its \<^verbatim>\<open>return\<close>. A schedule is the order in which the scheduler lets the
  invocations take their steps; \<^verbatim>\<open>run\<close> executes a schedule on the shared
  variables and the list of invocations. A schedule entry that names no invocation is
  skipped, and a step of an invocation that has returned changes nothing.
\<close>

record Shared =
  var_alphanumericRegex :: regexp
  var_globals :: Globals

datatype ('c, 'v) invocation =
    Called 'c "'v CallToolRequest option" EchoRequest
  | Checked 'c "'v CallToolRequest option" EchoRequest bool
  | Returned "'v CallToolResult option \<times> EchoResponse \<times> error option"

fun handler_step :: "Shared \<Rightarrow> ('c, 'v) invocation \<Rightarrow> Shared \<times> ('c, 'v) invocation" where
  "handler_step sh (Called ctx req params) =
     (sh, Checked ctx req params (MatchString (var_alphanumericRegex sh) (Input params)))"
| "handler_step sh (Checked ctx req params ok) =
     (sh, Returned
            (if \<not> ok
             then (Some \<lparr>ResultMeta = None,
                         Content = [TextContent ''input must be alphanumeric only''],
                         StructuredContent = None,
                         IsError = True\<rparr>,
                   \<lparr>Output = ''''\<rparr>,
                   None)
             else (let response = \<lparr>Output = Input params\<rparr>
                   in (None, response, None))))"
| "handler_step sh (Returned r) = (sh, Returned r)"

definition sched_step ::
  "nat \<Rightarrow> Shared \<times> ('c, 'v) invocation list \<Rightarrow> Shared \<times> ('c, 'v) invocation list" where
  "sched_step i st =
     (if i < length (snd st)
      then (fst (handler_step (fst st) (snd st ! i)),
            (snd st)[i := snd (handler_step (fst st) (snd st ! i))])
      else st)"

definition run ::
  "nat list \<Rightarrow> Shared \<times> ('c, 'v) invocation list \<Rightarrow> Shared \<times> ('c, 'v) invocation list" where
  "run sched st = fold sched_step sched st"

text \<open>
  Where an invocation with the given context, request and parameters stands after it has
  taken \<open>k\<close> steps, when it runs alone against the compiled pattern: this is the
  sequential handler \<^verbatim>\<open>echoHandler\<close>, cut at the same two points.
\<close>

fun progress ::
  "'c \<times> 'v CallToolRequest option \<times> EchoRequest \<Rightarrow> nat \<Rightarrow> ('c, 'v) invocation" where
  "progress (ctx, req, params) 0 = Called ctx req params"
| "progress (ctx, req, params) (Suc 0) = Checked ctx req params (validateAlphanumeric (Input params))"
| "progress (ctx, req, params) (Suc (Suc k)) = Returned (echoHandler ctx req params)"

section \<open>The client\<close>







datatype 'x outcome = Ok 'x | Failed error | Panicked string
















section \<open>The validator accepts exactly the non-empty alphanumeric strings\<close>

lemma alnum_class:
  "inClass [(CHR ''a'', CHR ''z''), (CHR ''A'', CHR ''Z''), (CHR ''0'', CHR ''9'')] c
     \<longleftrightarrow> isAsciiLetter c \<or> isAsciiDigit c"
proof (cases c)
  case (Char b0 b1 b2 b3 b4 b5 b6 b7)
  show ?thesis
    unfolding Char inClass_def isAsciiLetter_def isAsciiDigit_def
    by (cases b0; cases b1; cases b2; cases b3; cases b4; cases b5; cases b6; cases b7; simp)
qed

text \<open>
  Repeating a character class with "the text ends here" as continuation succeeds exactly
  when the rest of the text is non-empty, short enough for the number of repetitions
  allowed, and lies in the class.
\<close>

lemma iterate1_class:
  "iterate1 n (matchk (CharClass rs)) (b, s) (\<lambda>q. snd q = [])
     \<longleftrightarrow> s \<noteq> [] \<and> length s \<le> n \<and> list_all (inClass rs) s"
proof (induction n arbitrary: b s)
  case 0
  show ?case by simp
next
  case (Suc n)
  show ?case
  proof (cases s)
    case Nil
    then show ?thesis by simp
  next
    case (Cons c cs)
    then show ?thesis using Suc [of False cs] by (cases cs) auto
  qed
qed

lemma positions_False: "p \<in> set (positions False s) \<Longrightarrow> \<not> fst p"
  by (induction s) auto

lemma matchk_alphanumericRegex:
  "matchk alphanumericRegex (b, s) (\<lambda>_. True)
     \<longleftrightarrow> b \<and> s \<noteq> [] \<and> list_all (\<lambda>c. isAsciiLetter c \<or> isAsciiDigit c) s"
proof -
  have "matchk alphanumericRegex (b, s) (\<lambda>_. True)
          \<longleftrightarrow> b \<and> iterate1 (Suc (length s))
                  (matchk (CharClass [(CHR ''a'', CHR ''z''), (CHR ''A'', CHR ''Z''), (CHR ''0'', CHR ''9'')]))
                  (b, s) (\<lambda>q. snd q = [])"
    by (simp add: alphanumericRegex_def del: iterate1.simps)
  then show ?thesis
    by (simp only: iterate1_class) (simp add: alnum_class [abs_def])
qed

lemma matchk_not_at_start:
  "\<not> fst p \<Longrightarrow> \<not> matchk alphanumericRegex p (\<lambda>_. True)"
  by (simp add: alphanumericRegex_def)

lemma validateAlphanumeric_chars:
  "validateAlphanumeric s
     \<longleftrightarrow> s \<noteq> [] \<and> list_all (\<lambda>c. isAsciiLetter c \<or> isAsciiDigit c) s"
proof -
  have "list_ex (\<lambda>p. matchk alphanumericRegex p (\<lambda>_. True)) (positions True s)
          \<longleftrightarrow> matchk alphanumericRegex (True, s) (\<lambda>_. True)"
    by (cases s) (auto simp: list_ex_iff dest: positions_False matchk_not_at_start)
  then show ?thesis
    by (simp add: validateAlphanumeric_def MatchString_def matchk_alphanumericRegex)
qed

lemma valid_test123: "validateAlphanumeric ''test123''"
  by (simp add: validateAlphanumeric_chars isAsciiLetter_def isAsciiDigit_def)

lemma invalid_test_at_123: "\<not> validateAlphanumeric ''test@123''"
  by (simp add: validateAlphanumeric_chars isAsciiLetter_def isAsciiDigit_def)

subsection \<open>Decimal numerals are alphanumeric\<close>

lemma digit_char_digit: "d < 10 \<Longrightarrow> isAsciiDigit (digit_char d)"
proof -
  assume "d < 10"
  then have "d \<in> {0, 1, 2, 3, 4, 5, 6, 7, 8, 9}" by auto
  then show ?thesis
    by (auto simp: digit_char_def isAsciiDigit_def)
qed

lemma utoa_digits: "list_all isAsciiDigit (utoa n)"
proof (induction n rule: utoa.induct)
  case (1 n)
  show ?case
  proof (cases "n < 10")
    case True
    then show ?thesis by (simp add: digit_char_digit)
  next
    case False
    then have "list_all isAsciiDigit (utoa (n div 10))" using 1 by simp
    moreover have "isAsciiDigit (digit_char (n mod 10))" by (simp add: digit_char_digit)
    ultimately show ?thesis using False by (subst utoa.simps) simp
  qed
qed

lemma Itoa_nat: "Itoa (int n) = utoa n"
  by (simp add: Itoa_def del: utoa.simps)


lemma Atoi_9090: "Atoi ''9090'' = Some 9090"
  by (simp add: Atoi_def digit_val_def)

lemma Atoi_http: "Atoi ''http'' = None"
  by (simp add: Atoi_def digit_val_def)

lemma validate_testN: "validateAlphanumeric (''test'' @ Itoa (int n))"
proof -
  have "list_all (\<lambda>c. isAsciiLetter c \<or> isAsciiDigit c) (utoa n)"
    using utoa_digits [of n] by (simp only: list_all_iff) blast
  moreover have "list_all (\<lambda>c. isAsciiLetter c \<or> isAsciiDigit c) ''test''"
    by (simp add: isAsciiLetter_def)
  ultimately show ?thesis
    unfolding validateAlphanumeric_chars Itoa_nat
    by (simp del: utoa.simps)
qed

subsection \<open>The client's environment round trip and its connection events\<close>












subsection \<open>Interleaved invocations of the handler\<close>

text \<open>
  One step of an invocation, taken against the compiled pattern, leaves the shared
  variables as they are and moves the invocation one step along its own sequential run.
\<close>

lemma handler_step_progress:
  assumes "var_alphanumericRegex sh = alphanumericRegex"
  shows "handler_step sh (progress call k) = (sh, progress call (Suc k))"
proof -
  obtain ctx req params where call: "call = (ctx, req, params)"
    by (cases call)
  show ?thesis
  proof (cases k)
    case 0
    then show ?thesis
      using assms by (simp add: call validateAlphanumeric_def)
  next
    case (Suc k')
    then show ?thesis
      by (cases k') (simp_all add: call echoHandler_def)
  qed
qed

lemma progress_returned:
  "2 \<le> k \<Longrightarrow> progress (ctx, req, params) k = Returned (echoHandler ctx req params)"
proof -
  assume "2 \<le> k"
  then obtain k' where "k = Suc (Suc k')"
    by (cases k; cases "k - 1") auto
  then show ?thesis by simp
qed

lemma run_snoc: "run (sched @ [i]) st = sched_step i (run sched st)"
  by (simp add: run_def)

text \<open>
  The invariant of every schedule: the shared variables are the initial ones, and each
  invocation stands where its own sequential run stands after as many steps as the
  schedule has given it.
\<close>

lemma run_progress:
  assumes "var_alphanumericRegex sh = alphanumericRegex"
  shows "run sched (sh, map (\<lambda>call. progress call 0) calls)
           = (sh, map (\<lambda>j. progress (calls ! j) (count_list sched j)) [0..<length calls])"
proof (induction sched rule: rev_induct)
  case Nil
  have "map (\<lambda>j. progress (calls ! j) 0) [0..<length calls] = map (\<lambda>call. progress call 0) calls"
    by (rule nth_equalityI) simp_all
  then show ?case
    by (simp add: run_def)
next
  case (snoc i sched)
  let ?cs = "map (\<lambda>j. progress (calls ! j) (count_list sched j)) [0..<length calls]"
  show ?case
  proof (cases "i < length calls")
    case True
    have step: "handler_step sh (?cs ! i) = (sh, progress (calls ! i) (Suc (count_list sched i)))"
      using True handler_step_progress [OF assms] by simp
    have "sched_step i (sh, ?cs)
            = (sh, ?cs[i := progress (calls ! i) (Suc (count_list sched i))])"
      using True unfolding sched_step_def by (simp only: fst_conv snd_conv step length_map length_upt) simp
    moreover have "?cs[i := progress (calls ! i) (Suc (count_list sched i))]
            = map (\<lambda>j. progress (calls ! j) (count_list (sched @ [i]) j)) [0..<length calls]"
      by (rule nth_equalityI) (simp_all add: nth_list_update)
    ultimately show ?thesis
      by (simp only: run_snoc snoc.IH)
  next
    case False
    then have "map (\<lambda>j. progress (calls ! j) (count_list (sched @ [i]) j)) [0..<length calls] = ?cs"
      by (intro nth_equalityI) simp_all
    moreover have "sched_step i (sh, ?cs) = (sh, ?cs)"
      using False by (simp add: sched_step_def)
    ultimately show ?thesis
      by (simp only: run_snoc snoc.IH)
  qed
qed

lemma run_all_returned:
  assumes "var_alphanumericRegex sh = alphanumericRegex"
    and "\<forall>j<length calls. 2 \<le> count_list sched j"
  shows "snd (run sched (sh, map (\<lambda>call. progress call 0) calls))
           = map (\<lambda>(ctx, req, params). Returned (echoHandler ctx req params)) calls"
proof -
  have each: "\<And>j. j < length calls \<Longrightarrow>
          progress (calls ! j) (count_list sched j)
            = (\<lambda>(ctx, req, params). Returned (echoHandler ctx req params)) (calls ! j)"
  proof -
    fix j assume "j < length calls"
    then have "2 \<le> count_list sched j" using assms(2) by blast
    then show "progress (calls ! j) (count_list sched j)
            = (\<lambda>(ctx, req, params). Returned (echoHandler ctx req params)) (calls ! j)"
      by (cases "calls ! j") (simp add: progress_returned)
  qed
  have "map (\<lambda>j. progress (calls ! j) (count_list sched j)) [0..<length calls]
          = map (\<lambda>(ctx, req, params). Returned (echoHandler ctx req params)) calls"
    by (rule nth_equalityI) (simp_all add: each)
  then show ?thesis
    by (simp only: run_progress [OF assms(1)] snd_conv)
qed

section \<open>The claims\<close>

text \<open>
  C1. For every string the validator accepts, the echo handler of the server returns no
  result pointer, no error, and a response whose output is the input itself, byte for
  byte, whatever the context and the request are.
\<close>

theorem echoHandler_identity:
  "validateAlphanumeric s \<Longrightarrow>
     echoHandler ctx req \<lparr>Input = s\<rparr> = (None, \<lparr>Output = s\<rparr>, None)"
  by (simp add: echoHandler_def)

theorem echoHandler_identity_witness:
  "validateAlphanumeric ''test123''
   \<and> echoHandler () (None :: unit CallToolRequest option) \<lparr>Input = ''test123''\<rparr>
       = (None, \<lparr>Output = ''test123''\<rparr>, None)"
  using echoHandler_identity [OF valid_test123, of "()" "None :: unit CallToolRequest option"]
    valid_test123
  by simp

text \<open>
  C2. \<^verbatim>\<open>validateAlphanumeric\<close> returns true exactly for the strings that are not empty
  and consist of ASCII letters and ASCII digits only, of any length; in particular it
  rejects the empty string. Here the pattern is matched by the regular-expression matcher,
  and the letters and digits are the ones written out in \<^const>\<open>isAsciiLetter\<close> and
  \<^const>\<open>isAsciiDigit\<close>.
\<close>

theorem validateAlphanumeric_iff:
  "(validateAlphanumeric s
      \<longleftrightarrow> s \<noteq> [] \<and> (\<forall>c \<in> set s. isAsciiLetter c \<or> isAsciiDigit c))
   \<and> \<not> validateAlphanumeric ''''"
  by (simp add: validateAlphanumeric_chars list_all_iff)

text \<open>
  Instances: mixed case and digits pass; a space, punctuation, and the two bytes of a
  UTF-8 encoded accented letter do not.
\<close>

theorem validateAlphanumeric_iff_witness:
  "validateAlphanumeric ''AbC123''
   \<and> \<not> validateAlphanumeric ''abc 123''
   \<and> \<not> validateAlphanumeric ''abc!123''
   \<and> \<not> validateAlphanumeric [CHR ''a'', CHR 0xC3, CHR 0xA9]"
  using validateAlphanumeric_iff [of "''AbC123''"] validateAlphanumeric_iff [of "''abc 123''"]
    validateAlphanumeric_iff [of "''abc!123''"]
    validateAlphanumeric_iff [of "[CHR ''a'', CHR 0xC3, CHR 0xA9]"]
  by (simp add: isAsciiLetter_def isAsciiDigit_def)

text \<open>
  C3. As stated for "the echo handler", the claim fails for the handler of
  \<^verbatim>\<open>cmd/yardstick-server/main.go\<close>: on the rejected input \<^verbatim>\<open>test@123\<close> it
  returns a nil result together with a Go error.
\<close>

theorem ys_echoHandler_error_counterexample:
  "ys_echoHandler () () \<lparr>Arguments = \<lparr>Input = ''test@123''\<rparr>\<rparr>
     = (None :: unit CallToolResult option, Some (Error ''input must be alphanumeric only''))"
  using invalid_test_at_123 by (simp add: ys_echoHandler_def)

text \<open>
  C3, amended. For every input the validator rejects, the three-result echo handler of
  the server returns a result flagged as an error whose only content is the text
  "input must be alphanumeric only", the zero response (empty output) and a nil Go error.
  The two-result handler of \<^verbatim>\<open>cmd/yardstick-server/main.go\<close> returns a nil result
  and a Go error with the same text.
\<close>

theorem echoHandler_invalid:
  "\<not> validateAlphanumeric s \<Longrightarrow>
     echoHandler ctx req \<lparr>Input = s\<rparr>
       = (Some \<lparr>ResultMeta = None,
                Content = [TextContent ''input must be alphanumeric only''],
                StructuredContent = None,
                IsError = True\<rparr>,
          \<lparr>Output = ''''\<rparr>,
          None)
     \<and> ys_echoHandler ctx' session \<lparr>Arguments = \<lparr>Input = s\<rparr>\<rparr>
       = (None, Some (Error ''input must be alphanumeric only''))"
  by (simp add: echoHandler_def ys_echoHandler_def)

theorem echoHandler_invalid_witness:
  "\<not> validateAlphanumeric ''test@123''
   \<and> echoHandler () (None :: unit CallToolRequest option) \<lparr>Input = ''test@123''\<rparr>
       = (Some \<lparr>ResultMeta = None,
                Content = [TextContent ''input must be alphanumeric only''],
                StructuredContent = None,
                IsError = True\<rparr>,
          \<lparr>Output = ''''\<rparr>,
          None)
   \<and> ys_echoHandler () () \<lparr>Arguments = \<lparr>Input = ''test@123''\<rparr>\<rparr>
       = (None :: unit CallToolResult option, Some (Error ''input must be alphanumeric only''))"
  using echoHandler_invalid [OF invalid_test_at_123, of "()" "None :: unit CallToolRequest option" "()" "()"]
    invalid_test_at_123
  by simp

text \<open>
  C4. The claim asks that a request with the metadata \<^verbatim>\<open>{"progressToken":"task123"}\<close>
  gets a result that carries the same map. The handler never reads its request: for this
  request and the valid input \<^verbatim>\<open>test123\<close> it returns a nil result, as it does
  without metadata.
\<close>

theorem echoHandler_drops_metadata:
  "echoHandler ()
     (Some \<lparr>Params = Some \<lparr>Meta = Some [''progressToken'' \<mapsto> ''task123'']\<rparr>\<rparr>)
     \<lparr>Input = ''test123''\<rparr>
   = (None, \<lparr>Output = ''test123''\<rparr>, None)"
  using valid_test123 by (simp add: echoHandler_def)

text \<open>
  C5. With an empty expected header name \<^verbatim>\<open>checkAuth\<close> returns nil for every
  request. Otherwise it returns nil exactly when the value that \<^verbatim>\<open>Header.Get\<close>
  reads for the named header equals the expected value as a string, and the error
  "unauthorized" when it differs. When \<^verbatim>\<open>checkAuth\<close> fails, the wrapped handler
  answers with \<^verbatim>\<open>http.Error\<close> and status 401 (on a response whose status is not
  written yet) and the next handler is not called; when it passes, the answer is the next
  handler's.
\<close>

theorem checkAuth_iff:
  "(authHeader g = '''' \<longrightarrow> checkAuth canon g r = None)
   \<and> (authHeader g \<noteq> '''' \<longrightarrow>
        (checkAuth canon g r = None \<longleftrightarrow> Header_Get canon (Header r) (authHeader g) = authValue g)
        \<and> (Header_Get canon (Header r) (authHeader g) \<noteq> authValue g \<longrightarrow>
             checkAuth canon g r = Some (Error ''unauthorized'')))
   \<and> (checkAuth canon g r \<noteq> None \<and> status w = None \<longrightarrow>
        authWrapper canon g next w r = http_Error w ''unauthorized'' StatusUnauthorized
        \<and> status (authWrapper canon g next w r) = Some 401)
   \<and> (checkAuth canon g r = None \<longrightarrow> authWrapper canon g next w r = next w r)"
  by (auto simp: checkAuth_def authWrapper_def http_Error_def StatusUnauthorized_def)

text \<open>
  Instances with the header \<^verbatim>\<open>X-Auth-Token\<close> and the value \<^verbatim>\<open>secret123\<close>:
  the right value passes and reaches the next handler; a value that differs in case only,
  and a missing header, are answered with 401; with an empty header name a request without
  headers passes.
\<close>

theorem checkAuth_iff_witness:
  "checkAuth (\<lambda>k. k) \<lparr>transport = ''sse'', port = 8080, authHeader = ''X-Auth-Token'', authValue = ''secret123''\<rparr>
       \<lparr>Header = [''X-Auth-Token'' \<mapsto> [''secret123'']]\<rparr> = None
   \<and> authWrapper (\<lambda>k. k)
        \<lparr>transport = ''sse'', port = 8080, authHeader = ''X-Auth-Token'', authValue = ''secret123''\<rparr>
        (\<lambda>w r. w\<lparr>status := Some 200\<rparr>) \<lparr>status = None, body = ''''\<rparr>
        \<lparr>Header = [''X-Auth-Token'' \<mapsto> [''secret123'']]\<rparr>
       = \<lparr>status = Some 200, body = ''''\<rparr>
   \<and> checkAuth (\<lambda>k. k) \<lparr>transport = ''sse'', port = 8080, authHeader = ''X-Auth-Token'', authValue = ''secret123''\<rparr>
       \<lparr>Header = [''X-Auth-Token'' \<mapsto> [''Secret123'']]\<rparr> = Some (Error ''unauthorized'')
   \<and> authWrapper (\<lambda>k. k)
        \<lparr>transport = ''sse'', port = 8080, authHeader = ''X-Auth-Token'', authValue = ''secret123''\<rparr>
        (\<lambda>w r. w\<lparr>status := Some 200\<rparr>) \<lparr>status = None, body = ''''\<rparr>
        \<lparr>Header = Map.empty\<rparr>
       = \<lparr>status = Some 401, body = ''unauthorized\<newline>''\<rparr>
   \<and> checkAuth (\<lambda>k. k) \<lparr>transport = ''sse'', port = 8080, authHeader = '''', authValue = ''''\<rparr>
       \<lparr>Header = Map.empty\<rparr> = None"
  using
    checkAuth_iff [of "\<lparr>transport = ''sse'', port = 8080, authHeader = ''X-Auth-Token'', authValue = ''secret123''\<rparr>"
      "\<lambda>k. k" "\<lparr>Header = [''X-Auth-Token'' \<mapsto> [''secret123'']]\<rparr>"
      "\<lparr>status = None, body = ''''\<rparr>" "\<lambda>w r. w\<lparr>status := Some 200\<rparr>"]
    checkAuth_iff [of "\<lparr>transport = ''sse'', port = 8080, authHeader = ''X-Auth-Token'', authValue = ''secret123''\<rparr>"
      "\<lambda>k. k" "\<lparr>Header = [''X-Auth-Token'' \<mapsto> [''Secret123'']]\<rparr>"
      "\<lparr>status = None, body = ''''\<rparr>" "\<lambda>w r. w\<lparr>status := Some 200\<rparr>"]
    checkAuth_iff [of "\<lparr>transport = ''sse'', port = 8080, authHeader = ''X-Auth-Token'', authValue = ''secret123''\<rparr>"
      "\<lambda>k. k" "\<lparr>Header = Map.empty\<rparr>"
      "\<lparr>status = None, body = ''''\<rparr>" "\<lambda>w r. w\<lparr>status := Some 200\<rparr>"]
    checkAuth_iff [of "\<lparr>transport = ''sse'', port = 8080, authHeader = '''', authValue = ''''\<rparr>"
      "\<lambda>k. k" "\<lparr>Header = Map.empty\<rparr>"
      "\<lparr>status = None, body = ''''\<rparr>" "\<lambda>w r. w\<lparr>status := Some 200\<rparr>"]
  by (simp add: Header_Get_def http_Error_def StatusUnauthorized_def)

text \<open>
  C6. Invocations of the echo handler that run concurrently do not influence each other.
  Start any batch of invocations, each with its own context, request (metadata included)
  and input, and let the scheduler interleave their steps in any order. Then the shared
  variables are never changed, and every invocation stands exactly where it would stand
  had it run alone for the number of steps it was given: its state, and in the end its
  result, is the result of \<^verbatim>\<open>echoHandler\<close> on its own arguments, whatever the
  other invocations are and however they are scheduled. Two invocations of a batch with
  the same request (metadata included) and the same input return the same result, even
  under different contexts, and once every invocation of the
  hundred inputs \<^verbatim>\<open>test0\<close> to \<^verbatim>\<open>test99\<close> has had its two steps, under
  any interleaving, the output of each is its own input.
\<close>

theorem echoHandler_no_cross_talk:
  assumes "var_alphanumericRegex sh = alphanumericRegex"
  shows "run sched (sh, map (\<lambda>call. progress call 0) calls)
           = (sh, map (\<lambda>j. progress (calls ! j) (count_list sched j)) [0..<length calls])
         \<and> ((\<forall>j<length calls. 2 \<le> count_list sched j) \<longrightarrow>
              snd (run sched (sh, map (\<lambda>call. progress call 0) calls))
                = map (\<lambda>(ctx, req, params). Returned (echoHandler ctx req params)) calls)
         \<and> ((\<forall>j<100. 2 \<le> count_list sched j) \<longrightarrow>
              snd (run sched (sh, map (\<lambda>i. Called ctx req \<lparr>Input = ''test'' @ Itoa (int i)\<rparr>) [0..<100]))
                = map (\<lambda>i. Returned (None, \<lparr>Output = ''test'' @ Itoa (int i)\<rparr>, None)) [0..<100])
         \<and> (a < length calls \<and> b < length calls \<and> snd (calls ! a) = snd (calls ! b)
              \<and> 2 \<le> count_list sched a \<and> 2 \<le> count_list sched b \<longrightarrow>
              snd (run sched (sh, map (\<lambda>call. progress call 0) calls)) ! a
                = snd (run sched (sh, map (\<lambda>call. progress call 0) calls)) ! b)"
proof (intro conjI impI)
  show "run sched (sh, map (\<lambda>call. progress call 0) calls)
           = (sh, map (\<lambda>j. progress (calls ! j) (count_list sched j)) [0..<length calls])"
    by (rule run_progress [OF assms])
next
  assume "\<forall>j<length calls. 2 \<le> count_list sched j"
  then show "snd (run sched (sh, map (\<lambda>call. progress call 0) calls))
                = map (\<lambda>(ctx, req, params). Returned (echoHandler ctx req params)) calls"
    by (rule run_all_returned [OF assms])
next
  assume fair: "\<forall>j<100. 2 \<le> count_list sched j"
  let ?batch = "map (\<lambda>i. (ctx, req, \<lparr>Input = ''test'' @ Itoa (int i)\<rparr>)) [0..<100]"
  have start: "map (\<lambda>call. progress call 0) ?batch
                 = map (\<lambda>i. Called ctx req \<lparr>Input = ''test'' @ Itoa (int i)\<rparr>) [0..<100]"
    by (simp add: o_def)
  have result: "map (\<lambda>(ctx, req, params). Returned (echoHandler ctx req params)) ?batch
                  = map (\<lambda>i. Returned (None, \<lparr>Output = ''test'' @ Itoa (int i)\<rparr>, None)) [0..<100]"
    using validate_testN by (simp add: o_def echoHandler_def)
  have "\<forall>j<length ?batch. 2 \<le> count_list sched j"
    using fair by simp
  from run_all_returned [OF assms this] show
    "snd (run sched (sh, map (\<lambda>i. Called ctx req \<lparr>Input = ''test'' @ Itoa (int i)\<rparr>) [0..<100]))
       = map (\<lambda>i. Returned (None, \<lparr>Output = ''test'' @ Itoa (int i)\<rparr>, None)) [0..<100]"
    by (simp only: start result)
next
  assume same: "a < length calls \<and> b < length calls \<and> snd (calls ! a) = snd (calls ! b)
              \<and> 2 \<le> count_list sched a \<and> 2 \<le> count_list sched b"
  obtain ctx1 req1 params1 where a: "calls ! a = (ctx1, req1, params1)"
    by (cases "calls ! a")
  obtain ctx2 req2 params2 where b: "calls ! b = (ctx2, req2, params2)"
    by (cases "calls ! b")
  have args: "req2 = req1" "params2 = params1"
    using same by (simp_all add: a b)
  have "echoHandler ctx1 req1 params1 = echoHandler ctx2 req1 params1"
    by (simp add: echoHandler_def)
  then show "snd (run sched (sh, map (\<lambda>call. progress call 0) calls)) ! a
                = snd (run sched (sh, map (\<lambda>call. progress call 0) calls)) ! b"
    using same by (simp add: run_progress [OF assms] a b args progress_returned)
qed

text \<open>
  An instance: two invocations, the second of which takes both its steps between the two
  steps of the first.
\<close>

theorem echoHandler_no_cross_talk_witness:
  "run [0, 1, 1, 0]
       (\<lparr>var_alphanumericRegex = alphanumericRegex,
         var_globals = \<lparr>transport = ''sse'', port = 8080, authHeader = '''', authValue = ''''\<rparr>\<rparr>,
        [Called () (None :: unit CallToolRequest option) \<lparr>Input = ''test0''\<rparr>,
         Called () None \<lparr>Input = ''test1''\<rparr>])
     = (\<lparr>var_alphanumericRegex = alphanumericRegex,
         var_globals = \<lparr>transport = ''sse'', port = 8080, authHeader = '''', authValue = ''''\<rparr>\<rparr>,
        [Returned (None, \<lparr>Output = ''test0''\<rparr>, None),
         Returned (None, \<lparr>Output = ''test1''\<rparr>, None)])"
proof -
  let ?sh = "\<lparr>var_alphanumericRegex = alphanumericRegex,
         var_globals = \<lparr>transport = ''sse'', port = 8080, authHeader = '''', authValue = ''''\<rparr>\<rparr>"
  let ?calls = "[((), None :: unit CallToolRequest option, \<lparr>Input = ''test0''\<rparr>),
                 ((), None, \<lparr>Input = ''test1''\<rparr>)]"
  have regex: "var_alphanumericRegex ?sh = alphanumericRegex"
    by simp
  have valid: "validateAlphanumeric ''test0''" "validateAlphanumeric ''test1''"
    by (simp_all add: validateAlphanumeric_chars isAsciiLetter_def isAsciiDigit_def)
  have two: "[0..<2] = [0, Suc 0]"
    by (simp add: upt_rec)
  note inv = echoHandler_no_cross_talk [OF regex, of "[0, 1, 1, 0]" ?calls, THEN conjunct1]
  show ?thesis
    using inv valid
    by (simp add: two numeral_2_eq_2 echoHandler_def)
qed

text \<open>
  C7. When the configured transport is none of \<^verbatim>\<open>stdio\<close>, \<^verbatim>\<open>sse\<close> and
  \<^verbatim>\<open>streamable-http\<close>, the server writes two lines to the standard error stream,
  the second naming the three supported transports, and exits with status 1; it starts no
  listener (no stdio loop, no HTTP handler, no \<^verbatim>\<open>ListenAndServe\<close>).
\<close>

theorem main_unknown_transport:
  "transport (parseConfig flags env) \<notin> {''stdio'', ''sse'', ''streamable-http''} \<Longrightarrow>
     main flags env world =
       [NewServer ''echo-server'' ''1.0.0'', AddTool ''echo'',
        Stderr (''Unknown transport type: '' @ transport (parseConfig flags env) @ ''\<newline>''),
        Stderr ''Supported transports: stdio, sse, streamable-http\<newline>'',
        Exit 1]
     \<and> \<not> list_ex is_listener (main flags env world)
     \<and> last (main flags env world) = Exit 1"
  by (simp add: main_def Let_def)

theorem main_unknown_transport_witness:
  "transport (parseConfig \<lparr>flag_transport = Some ''bogus'', flag_port = None\<rparr> Map.empty)
     \<notin> {''stdio'', ''sse'', ''streamable-http''}
   \<and> main \<lparr>flag_transport = Some ''bogus'', flag_port = None\<rparr> Map.empty
        \<lparr>server_Run = None, srv_ListenAndServe = Error ''closed''\<rparr> =
       [NewServer ''echo-server'' ''1.0.0'', AddTool ''echo'',
        Stderr ''Unknown transport type: bogus\<newline>'',
        Stderr ''Supported transports: stdio, sse, streamable-http\<newline>'',
        Exit 1]"
proof -
  have t: "transport (parseConfig \<lparr>flag_transport = Some ''bogus'', flag_port = None\<rparr> Map.empty)
             = ''bogus''"
    by (simp add: parseConfig_def flag_value_def LookupEnv_def)
  show ?thesis
    using main_unknown_transport [of "\<lparr>flag_transport = Some ''bogus'', flag_port = None\<rparr>" Map.empty
        "\<lparr>server_Run = None, srv_ListenAndServe = Error ''closed''\<rparr>"]
    by (simp add: t)
qed




text \<open>
  C9. As stated, with one transport override that goes by the two names
  \<^verbatim>\<open>MCP_TRANSPORT\<close> and \<^verbatim>\<open>TRANSPORT\<close>, the claim fails: the server with the
  authentication check does not read \<^verbatim>\<open>TRANSPORT\<close>. With no flags and
  \<^verbatim>\<open>TRANSPORT=sse\<close> in the environment it keeps the default \<^verbatim>\<open>stdio\<close>.
\<close>

theorem parseConfig_ignores_TRANSPORT_counterexample:
  "transport (parseConfig \<lparr>flag_transport = None, flag_port = None\<rparr> [''TRANSPORT'' \<mapsto> ''sse''])
     = ''stdio''"
  by (simp add: parseConfig_def flag_value_def LookupEnv_def)

text \<open>
  C9, amended. After \<^verbatim>\<open>parseConfig\<close> the transport is the value of the transport
  variable of the environment when that variable is set, and the \<^verbatim>\<open>--transport\<close>
  flag with default \<^verbatim>\<open>stdio\<close> otherwise. The variable is \<^verbatim>\<open>MCP_TRANSPORT\<close>
  for the server with the authentication check and \<^verbatim>\<open>TRANSPORT\<close> for
  \<^verbatim>\<open>cmd/yardstick-server/main.go\<close>; each reads its own variable only, so setting
  or unsetting the other one changes nothing. The port is the integer in
  \<^verbatim>\<open>PORT\<close> when that is set and \<^verbatim>\<open>strconv.Atoi\<close> parses it, and the
  \<^verbatim>\<open>--port\<close> flag with default 8080 otherwise. In the server with the
  authentication check the expected header name and value are what \<^verbatim>\<open>os.Getenv\<close>
  reads for \<^verbatim>\<open>AUTH_HEADER\<close> and \<^verbatim>\<open>AUTH_VALUE\<close>.
\<close>

theorem parseConfig_env_overrides:
  "(env ''MCP_TRANSPORT'' = Some t \<longrightarrow> transport (parseConfig flags env) = t)
   \<and> (env ''MCP_TRANSPORT'' = None \<longrightarrow>
        transport (parseConfig flags env)
          = (case flag_transport flags of Some given \<Rightarrow> given | None \<Rightarrow> ''stdio''))
   \<and> (env ''TRANSPORT'' = Some t \<longrightarrow> fst (ys_parseConfig flags env) = t)
   \<and> (env ''TRANSPORT'' = None \<longrightarrow>
        fst (ys_parseConfig flags env)
          = (case flag_transport flags of Some given \<Rightarrow> given | None \<Rightarrow> ''stdio''))
   \<and> (env ''PORT'' = Some p \<and> Atoi p = Some n \<longrightarrow>
        port (parseConfig flags env) = n \<and> snd (ys_parseConfig flags env) = n)
   \<and> (env ''PORT'' = None \<or> (env ''PORT'' = Some p \<and> Atoi p = None) \<longrightarrow>
        port (parseConfig flags env)
          = (case flag_port flags of Some given \<Rightarrow> given | None \<Rightarrow> 8080)
        \<and> snd (ys_parseConfig flags env)
          = (case flag_port flags of Some given \<Rightarrow> given | None \<Rightarrow> 8080))
   \<and> authHeader (parseConfig flags env) = Getenv env ''AUTH_HEADER''
   \<and> authValue (parseConfig flags env) = Getenv env ''AUTH_VALUE''
   \<and> transport (parseConfig flags (env(''TRANSPORT'' := other))) = transport (parseConfig flags env)
   \<and> fst (ys_parseConfig flags (env(''MCP_TRANSPORT'' := other))) = fst (ys_parseConfig flags env)"
  by (auto simp: parseConfig_def ys_parseConfig_def LookupEnv_def flag_value_def Let_def)

text \<open>
  Instances: an environment that sets everything overrides both flags; with an empty
  environment the flag and, without a flag, the default apply; a \<^verbatim>\<open>PORT\<close> that is
  not a number leaves the flag's port.
\<close>

theorem parseConfig_env_overrides_witness:
  "parseConfig \<lparr>flag_transport = Some ''stdio'', flag_port = Some 8081\<rparr>
       [''MCP_TRANSPORT'' \<mapsto> ''sse'', ''PORT'' \<mapsto> ''9090'',
        ''AUTH_HEADER'' \<mapsto> ''X-Auth-Token'', ''AUTH_VALUE'' \<mapsto> ''secret123'']
     = \<lparr>transport = ''sse'', port = 9090, authHeader = ''X-Auth-Token'', authValue = ''secret123''\<rparr>
   \<and> ys_parseConfig \<lparr>flag_transport = Some ''stdio'', flag_port = Some 8081\<rparr>
       [''TRANSPORT'' \<mapsto> ''sse'', ''PORT'' \<mapsto> ''9090''] = (''sse'', 9090)
   \<and> parseConfig \<lparr>flag_transport = None, flag_port = Some 8081\<rparr> Map.empty
     = \<lparr>transport = ''stdio'', port = 8081, authHeader = '''', authValue = ''''\<rparr>
   \<and> ys_parseConfig \<lparr>flag_transport = Some ''streamable-http'', flag_port = None\<rparr> Map.empty
     = (''streamable-http'', 8080)
   \<and> port (parseConfig \<lparr>flag_transport = None, flag_port = Some 8081\<rparr> [''PORT'' \<mapsto> ''http'']) = 8081"
proof -
  let ?env1 = "[''MCP_TRANSPORT'' \<mapsto> ''sse'', ''PORT'' \<mapsto> ''9090'',
        ''AUTH_HEADER'' \<mapsto> ''X-Auth-Token'', ''AUTH_VALUE'' \<mapsto> ''secret123'']"
  let ?env2 = "[''TRANSPORT'' \<mapsto> ''sse'', ''PORT'' \<mapsto> ''9090'']"
  let ?f1 = "\<lparr>flag_transport = Some ''stdio'', flag_port = Some 8081\<rparr>"
  let ?f2 = "\<lparr>flag_transport = None, flag_port = Some 8081\<rparr>"
  let ?f3 = "\<lparr>flag_transport = Some ''streamable-http'', flag_port = None\<rparr>"
  have eq: "\<And>g t p h v. transport g = t \<Longrightarrow> port g = p \<Longrightarrow> authHeader g = h \<Longrightarrow> authValue g = v
              \<Longrightarrow> g = \<lparr>transport = t, port = p, authHeader = h, authValue = v\<rparr>"
    by simp
  have 1: "parseConfig ?f1 ?env1
     = \<lparr>transport = ''sse'', port = 9090, authHeader = ''X-Auth-Token'', authValue = ''secret123''\<rparr>"
    using parseConfig_env_overrides [of ?env1 "''sse''" ?f1 "''9090''" 9090] Atoi_9090
    by (intro eq) (simp_all add: Getenv_def)
  have 2: "ys_parseConfig ?f1 ?env2 = (''sse'', 9090)"
    using parseConfig_env_overrides [of ?env2 "''sse''" ?f1 "''9090''" 9090] Atoi_9090
    by (simp add: prod_eq_iff)
  have 3: "parseConfig ?f2 Map.empty
     = \<lparr>transport = ''stdio'', port = 8081, authHeader = '''', authValue = ''''\<rparr>"
    using parseConfig_env_overrides [of Map.empty _ ?f2]
    by (intro eq) (simp_all add: Getenv_def)
  have 4: "ys_parseConfig ?f3 Map.empty = (''streamable-http'', 8080)"
    using parseConfig_env_overrides [of Map.empty _ ?f3]
    by (simp add: prod_eq_iff)
  have 5: "port (parseConfig ?f2 [''PORT'' \<mapsto> ''http'']) = 8081"
    using parseConfig_env_overrides [of "[''PORT'' \<mapsto> ''http'']" _ ?f2 "''http''"] Atoi_http
    by simp
  from 1 2 3 4 5 show ?thesis by blast
qed

text \<open>
  C10. When the expected header name is set and the expected value is empty,
  \<^verbatim>\<open>checkAuth\<close> accepts every request that does not carry the named header: the
  missing header reads as the empty string, which equals the expected value.
\<close>

theorem checkAuth_empty_value:
  "authHeader g \<noteq> '''' \<Longrightarrow> authValue g = '''' \<Longrightarrow> Header r (canon (authHeader g)) = None \<Longrightarrow>
     checkAuth canon g r = None"
  by (simp add: checkAuth_def Header_Get_def)

theorem checkAuth_empty_value_witness:
  "authHeader \<lparr>transport = ''sse'', port = 8080, authHeader = ''X-Auth-Token'', authValue = ''''\<rparr> \<noteq> ''''
   \<and> checkAuth (\<lambda>k. k)
        \<lparr>transport = ''sse'', port = 8080, authHeader = ''X-Auth-Token'', authValue = ''''\<rparr>
        \<lparr>Header = Map.empty\<rparr> = None"
  using checkAuth_empty_value
    [of "\<lparr>transport = ''sse'', port = 8080, authHeader = ''X-Auth-Token'', authValue = ''''\<rparr>"
        "\<lparr>Header = Map.empty\<rparr>" "\<lambda>k. k"]
  by simp

end
